theory Spec2Isabelle
  imports Main "HOL-Library.Sublist"
begin

section \<open>The kubectl command of minikube (cmd/minikube/cmd/kubectl.go)\<close>

text \<open>
  The command has two handlers: \<open>ValidArgsFunction\<close>, which proxies shell completion to
  an embedded kubectl command, and \<open>Run\<close>, which runs kubectl either on the control
  plane over SSH or as a local subprocess. Both call into packages that are not part of
  the file (config, mustload, machine, detect, node, out, klog, os/exec); each such call
  is a field of the environment record below, and every call with an effect is recorded
  as an event of the trace the handler returns. Go errors are modelled by their message
  (what \<open>%v\<close> prints).
\<close>

subsection \<open>Go library functions\<close>

type_synonym error = string

text \<open>\<open>strings.TrimPrefix\<close>: the string without the prefix, when it has it.\<close>

definition TrimPrefix :: "string \<Rightarrow> string \<Rightarrow> string" where
  "TrimPrefix s p = (if prefix p s then drop (length p) s else s)"

text \<open>
  \<open>strings.Split\<close>: the pieces of \<open>s\<close> between the occurrences of \<open>sep\<close>, found
  from the left and never overlapping; \<open>cur\<close> is the piece being read. With an empty
  separator Go splits after each UTF-8 sequence, which is after each byte on ASCII text.
\<close>

function Split_from :: "string \<Rightarrow> string \<Rightarrow> string \<Rightarrow> string list" where
  "Split_from sep cur [] = [cur]"
| "Split_from sep cur (c # cs) =
     (if sep \<noteq> [] \<and> prefix sep (c # cs)
      then cur # Split_from sep [] (drop (length sep) (c # cs))
      else Split_from sep (cur @ [c]) cs)"
  by pat_completeness auto
termination
  by (relation "measure (\<lambda>(sep, cur, s). length s)") auto

definition Split :: "string \<Rightarrow> string \<Rightarrow> string list" where
  "Split s sep = (if sep = [] then map (\<lambda>c. [c]) s else Split_from sep [] s)"

text \<open>
  \<open>strconv.Atoi\<close>, which is \<open>ParseInt(s, 10, 0)\<close>: an optional sign, then one or more
  decimal digits, the value within the range of \<open>int\<close>. \<open>intSize\<close> is the width of
  \<open>int\<close> on the platform (32 or 64). \<open>ParseUint\<close> reads the digits from the left and
  stops at the first byte that is not a digit (a syntax error) or at the first digit
  that takes the value above \<open>2 ^ intSize - 1\<close> (a range error).
\<close>

datatype NumError = ErrSyntax | ErrRange

definition is_digit :: "char \<Rightarrow> bool" where
  "is_digit c = (48 \<le> (of_char c :: nat) \<and> (of_char c :: nat) \<le> 57)"

definition digit_val :: "char \<Rightarrow> nat" where
  "digit_val c = of_char c - 48"

fun ParseUint_loop :: "nat \<Rightarrow> nat \<Rightarrow> string \<Rightarrow> NumError + nat" where
  "ParseUint_loop maxVal n [] = Inr n"
| "ParseUint_loop maxVal n (c # cs) =
     (if \<not> is_digit c then Inl ErrSyntax
      else if n * 10 + digit_val c > maxVal then Inl ErrRange
      else ParseUint_loop maxVal (n * 10 + digit_val c) cs)"

definition ParseUint :: "nat \<Rightarrow> string \<Rightarrow> NumError + nat" where
  "ParseUint bitSize s =
     (if s = [] then Inl ErrSyntax else ParseUint_loop (2 ^ bitSize - 1) 0 s)"

definition ParseInt :: "nat \<Rightarrow> string \<Rightarrow> NumError + int" where
  "ParseInt bitSize s =
     (case s of
        [] \<Rightarrow> Inl ErrSyntax
      | c # cs \<Rightarrow>
          (let neg = (c = CHR ''-'');
               digits = (if c = CHR ''+'' \<or> c = CHR ''-'' then cs else s)
           in case ParseUint bitSize digits of
                Inl ErrSyntax \<Rightarrow> Inl ErrSyntax
              | Inl ErrRange \<Rightarrow> Inl ErrRange
              | Inr un \<Rightarrow>
                  (if \<not> neg \<and> un \<ge> 2 ^ (bitSize - 1) then Inl ErrRange
                   else if neg \<and> un > 2 ^ (bitSize - 1) then Inl ErrRange
                   else Inr (if neg then - int un else int un))))"

definition Atoi :: "nat \<Rightarrow> string \<Rightarrow> NumError + int" where
  "Atoi intSize s = ParseInt intSize s"

text \<open>
  \<open>bufio.Scanner\<close> with the default split function \<open>ScanLines\<close>. \<open>ScanLines_tokens\<close>
  gives the lines as \<open>ScanLines\<close> cuts them: each ends at a newline, a last line
  without a newline counts when it is not empty; \<open>cur\<close> is the line being read.
  \<open>dropCR\<close> removes one trailing carriage return. The scanner keeps a token in a buffer
  of at most \<open>MaxScanTokenSize\<close> bytes, newline included: on a line of that many bytes
  or more, \<open>Scan\<close> returns false and \<open>Err\<close> is \<open>ErrTooLong\<close>.
\<close>

definition newline :: char where
  "newline = CHR 0x0A"

definition carriage_return :: char where
  "carriage_return = CHR 0x0D"

definition tab :: char where
  "tab = CHR 0x09"

fun ScanLines_tokens :: "string \<Rightarrow> string \<Rightarrow> string list" where
  "ScanLines_tokens cur [] = (if cur = [] then [] else [cur])"
| "ScanLines_tokens cur (c # cs) =
     (if c = newline then cur # ScanLines_tokens [] cs
      else ScanLines_tokens (cur @ [c]) cs)"

definition dropCR :: "string \<Rightarrow> string" where
  "dropCR data = (if data \<noteq> [] \<and> last data = carriage_return then butlast data else data)"

definition MaxScanTokenSize :: nat where
  "MaxScanTokenSize = 64 * 1024"

datatype ScanError = ErrTooLong

text \<open>
  \<open>path.Clean\<close> and \<open>path.Join\<close>. \<open>Clean\<close> works on the elements between slashes:
  empty elements and \<open>.\<close> are dropped, \<open>..\<close> removes the element before it, is dropped
  at the root, and is kept at the start of a path that is not rooted. \<open>out\<close> holds the
  elements written so far, the last one first. \<open>Join\<close> skips the leading empty
  elements, joins the rest with slashes and cleans the result; when every element is
  empty it is the empty string.
\<close>

definition slash :: char where
  "slash = CHR ''/''"

fun path_elements :: "string \<Rightarrow> string \<Rightarrow> string list" where
  "path_elements cur [] = [cur]"
| "path_elements cur (c # cs) =
     (if c = slash then cur # path_elements [] cs else path_elements (cur @ [c]) cs)"

fun Clean_loop :: "bool \<Rightarrow> string list \<Rightarrow> string list \<Rightarrow> string list" where
  "Clean_loop rooted out [] = out"
| "Clean_loop rooted out (e # es) =
     (if e = [] \<or> e = ''.'' then Clean_loop rooted out es
      else if e = ''..'' then
        (case out of
           [] \<Rightarrow> if rooted then Clean_loop rooted [] es else Clean_loop rooted [''..''] es
         | prev # below \<Rightarrow>
             if prev = ''..'' then Clean_loop rooted (''..'' # out) es
             else Clean_loop rooted below es)
      else Clean_loop rooted (e # out) es)"

fun join_slash :: "string list \<Rightarrow> string" where
  "join_slash [] = []"
| "join_slash [e] = e"
| "join_slash (e # f # es) = e @ [slash] @ join_slash (f # es)"

definition Clean :: "string \<Rightarrow> string" where
  "Clean p =
     (if p = [] then ''.''
      else
        (let rooted = (hd p = slash);
             out = rev (Clean_loop rooted [] (path_elements [] p))
         in if rooted then slash # join_slash out
            else if out = [] then ''.'' else join_slash out))"

definition Join :: "string list \<Rightarrow> string" where
  "Join elem =
     (let rest = dropWhile (\<lambda>e. e = []) elem
      in if rest = [] then [] else Clean (join_slash rest))"

text \<open>
  \<open>fmt\<close> prints a slice of strings under \<open>%v\<close> as its elements between brackets,
  separated by spaces.
\<close>

fun join_space :: "string list \<Rightarrow> string" where
  "join_space [] = []"
| "join_space [e] = e"
| "join_space (e # f # es) = e @ '' '' @ join_space (f # es)"

definition fmt_strings :: "string list \<Rightarrow> string" where
  "fmt_strings xs = ''['' @ join_space xs @ '']''"

text \<open>
  \<open>os/exec\<close>: \<open>exec.Command\<close> makes a command from the path of a binary and its
  arguments; the first element of \<open>Args\<close> is the path itself. (A name without a
  directory would be looked up in \<open>PATH\<close>; the name given here is the file that
  \<open>node.CacheKubectlBinary\<close> returns, inside the cache directory.) \<open>Run\<close> on it starts
  the child and waits: it returns nil when the child
  exits with status 0, an \<open>*exec.ExitError\<close> holding the wait status when the child
  started and ended in any other way, and an error of another type when the child could
  not be started or waited for. \<open>WaitStatus.ExitStatus\<close> is the exit status of a child
  that exited, and -1 otherwise.
\<close>

record Cmd =
  Path :: string
  Args :: "string list"

definition Command :: "string \<Rightarrow> string list \<Rightarrow> Cmd" where
  "Command name arg = \<lparr>Path = name, Args = name # arg\<rparr>"

datatype WaitStatus = WExited int | WSignaled int

fun ExitStatus :: "WaitStatus \<Rightarrow> int" where
  "ExitStatus (WExited n) = n"
| "ExitStatus (WSignaled sig) = - 1"

datatype child = Terminated WaitStatus | NotRun error

datatype RunError = ExitError WaitStatus | OtherError error

fun Cmd_Run :: "child \<Rightarrow> RunError option" where
  "Cmd_Run (Terminated ws) = (if ws = WExited 0 then None else Some (ExitError ws))"
| "Cmd_Run (NotRun err) = Some (OtherError err)"

subsection \<open>Constants of cobra\<close>

definition ShellCompRequestCmd :: string where
  "ShellCompRequestCmd = ''__complete''"

definition ShellCompDirectiveError :: int where
  "ShellCompDirectiveError = 1"

subsection \<open>Shell completion: \<open>ValidArgsFunction\<close>\<close>

text \<open>
  The scanning loop of \<open>ValidArgsFunction\<close>: each line the scanner gives is cut at its
  first tab and appended to \<open>completions\<close>. The loop ends when the scanner has no more
  lines or stops on a line too long for its buffer; the second component is what
  \<open>scanner.Err()\<close> returns then.
\<close>

fun scan_loop :: "string list \<Rightarrow> string list \<Rightarrow> string list \<times> ScanError option" where
  "scan_loop [] completions = (completions, None)"
| "scan_loop (t # ts) completions =
     (if length t \<ge> MaxScanTokenSize then (completions, Some ErrTooLong)
      else scan_loop ts (completions @ [Split (dropCR t) [tab] ! 0]))"

text \<open>
  \<open>Execute\<close> stands for the embedded kubectl command: from the arguments set on it, the
  error it returns (if any) and the text it writes to \<open>out\<close>. A nil slice is \<open>None\<close>.
\<close>

definition ValidArgsFunction ::
  "nat \<Rightarrow> (string list \<Rightarrow> error option \<times> string) \<Rightarrow> string list \<Rightarrow> string
     \<Rightarrow> string list option \<times> int" where
  "ValidArgsFunction intSize Execute args toComplete =
     (case Execute ([ShellCompRequestCmd] @ (args @ [toComplete])) of
        (Some err, out) \<Rightarrow> (None, ShellCompDirectiveError)
      | (None, out) \<Rightarrow>
          (case scan_loop (ScanLines_tokens [] out) [] of (completions, scanErr) \<Rightarrow>
             if scanErr \<noteq> None \<or> length completions = 0
             then (None, ShellCompDirectiveError)
             else
               (case Atoi intSize (TrimPrefix (completions ! (length completions - 1)) '':'') of
                  Inl err \<Rightarrow> (None, ShellCompDirectiveError)
                | Inr directive \<Rightarrow>
                    (Some (take (length completions - 1) completions), directive))))"

subsection \<open>The data of a run\<close>

record KubernetesConfig =
  KubernetesVersion :: string

record ClusterConfig =
  KubernetesConfig :: KubernetesConfig
  BinaryMirror :: string

text \<open>What \<open>mustload.Running\<close> returns: the API handle, the config and the control plane node.\<close>

record ('api, 'node) ClusterController =
  API :: 'api
  Config :: ClusterConfig
  CP_Node :: 'node

text \<open>
  The environment of a run: the flag \<open>--ssh\<close>, the constants of other packages
  (\<open>constants.DefaultKubernetesVersion\<close>, \<open>constants.SupportedArchitectures\<close>,
  \<open>vmpath.GuestPersistentDir\<close>) and the answers of the functions called.
  \<open>mustload_Running\<close> ends the process itself when the cluster is not running: then the
  answer is the exit status.
\<close>

record ('api, 'node) env =
  useSSH :: bool
  ClusterFlagValue :: string
  DefaultKubernetesVersion :: string
  SupportedArchitectures :: "string list"
  GuestPersistentDir :: string
  config_Load :: "string \<Rightarrow> error + ClusterConfig"
  mustload_Running :: "string \<Rightarrow> int + ('api, 'node) ClusterController"
  machine_CreateSSHShell ::
    "'api \<Rightarrow> ClusterConfig \<Rightarrow> 'node \<Rightarrow> string list \<Rightarrow> bool \<Rightarrow> error option"
  detect_RuntimeArch :: string
  node_CacheKubectlBinary :: "string \<Rightarrow> string \<Rightarrow> error + string"
  run_child :: "Cmd \<Rightarrow> child"

text \<open>
  What a run does, in order: the calls with an effect and the lines written. A run ends
  by returning from the handler or by \<open>os.Exit\<close>.
\<close>

datatype event =
    ConfigLoad string
  | MustloadRunning string
  | KlogInfof string
  | CreateSSHShell "string list"
  | FprintfStderr string
  | OutErrLn string
  | CacheKubectlBinary string string
  | CmdRun Cmd

datatype outcome = Returned | Exit int

subsection \<open>The paths on the node\<close>

definition kubectlPath :: "string \<Rightarrow> ClusterConfig \<Rightarrow> string" where
  "kubectlPath guestPersistentDir cfg =
     Join [guestPersistentDir, ''binaries'', KubernetesVersion (KubernetesConfig cfg), ''kubectl'']"

definition kubeconfigPath :: string where
  "kubeconfigPath = ''/etc/kubernetes/admin.conf''"

subsection \<open>\<open>KubectlCommand\<close>\<close>

definition KubectlCommand ::
  "('api, 'node) env \<Rightarrow> string \<Rightarrow> string \<Rightarrow> string list \<Rightarrow> event list \<times> (error + Cmd)" where
  "KubectlCommand e version binaryURL args =
     (let version = (if version = [] then DefaultKubernetesVersion e else version)
      in case node_CacheKubectlBinary e version binaryURL of
           Inl err \<Rightarrow> ([CacheKubectlBinary version binaryURL], Inl err)
         | Inr path \<Rightarrow> ([CacheKubectlBinary version binaryURL], Inr (Command path args)))"

subsection \<open>The handler \<open>Run\<close>\<close>

text \<open>The loop over \<open>constants.SupportedArchitectures\<close>, which stops at the first match.\<close>

fun supported_loop :: "string \<Rightarrow> string list \<Rightarrow> bool" where
  "supported_loop arch [] = False"
| "supported_loop arch (a # as) = (if arch = a then True else supported_loop arch as)"

text \<open>The arguments of the local kubectl: the cluster flags go in front (lines 133 to 136).\<close>

definition cluster_args :: "string \<Rightarrow> string list \<Rightarrow> string list" where
  "cluster_args cname args =
     (if length args > 1 \<and> args ! 0 \<noteq> ''--help'' \<and> args ! 0 \<noteq> ShellCompRequestCmd
      then [''--cluster'', cname] @ args
      else args)"

text \<open>The arguments of the remote kubectl (lines 105 to 109).\<close>

definition ssh_args :: "string \<Rightarrow> ClusterConfig \<Rightarrow> string list \<Rightarrow> string list" where
  "ssh_args guestPersistentDir cfg args =
     (let kc = [''sudo''];
          kc = kc @ [kubectlPath guestPersistentDir cfg];
          kc = kc @ [''--kubeconfig''];
          kc = kc @ [kubeconfigPath]
      in kc @ args)"

definition Run_ssh :: "('api, 'node) env \<Rightarrow> string \<Rightarrow> string list \<Rightarrow> event list \<times> outcome" where
  "Run_ssh e cname args =
     (case mustload_Running e cname of
        Inl status \<Rightarrow> ([MustloadRunning cname], Exit status)
      | Inr co \<Rightarrow>
          (let args = ssh_args (GuestPersistentDir e) (Config co) args;
               called = [MustloadRunning cname,
                         KlogInfof (''Running SSH '' @ fmt_strings args),
                         CreateSSHShell args]
           in case machine_CreateSSHShell e (API co) (Config co) (CP_Node co) args False of
                Some err \<Rightarrow>
                  (called @ [FprintfStderr (''Error running kubectl: '' @ err)], Exit 1)
              | None \<Rightarrow> (called, Returned)))"

definition Run_local ::
  "('api, 'node) env \<Rightarrow> string \<Rightarrow> string \<Rightarrow> string \<Rightarrow> string list \<Rightarrow> event list \<times> outcome" where
  "Run_local e version binaryMirror cname args =
     (let arch = detect_RuntimeArch e
      in if \<not> supported_loop arch (SupportedArchitectures e)
         then ([FprintfStderr (''Not supported on: '' @ arch @ [newline])], Exit 1)
         else
           (let args = cluster_args cname args
            in case KubectlCommand e version binaryMirror args of
                 (called, Inl err) \<Rightarrow>
                   (called @ [OutErrLn (''Error caching kubectl: '' @ err)], Exit 1)
               | (called, Inr c) \<Rightarrow>
                   (let called = called @
                          [KlogInfof (''Running '' @ Path c @ '' '' @ fmt_strings args), CmdRun c]
                    in case Cmd_Run (run_child e c) of
                         None \<Rightarrow> (called, Returned)
                       | Some (ExitError waitStatus) \<Rightarrow> (called, Exit (ExitStatus waitStatus))
                       | Some (OtherError err) \<Rightarrow>
                           (called @
                              [FprintfStderr
                                 (''Error running '' @ Path c @ '': '' @ err @ [newline])],
                            Exit 1))))"

text \<open>The version and the mirror after the load of the config (lines 90 to 97).\<close>

definition loaded_version :: "('api, 'node) env \<Rightarrow> error + ClusterConfig \<Rightarrow> string" where
  "loaded_version e loaded =
     (case loaded of
        Inl err \<Rightarrow> DefaultKubernetesVersion e
      | Inr cc \<Rightarrow> KubernetesVersion (KubernetesConfig cc))"

definition loaded_mirror :: "error + ClusterConfig \<Rightarrow> string" where
  "loaded_mirror loaded = (case loaded of Inl err \<Rightarrow> [] | Inr cc \<Rightarrow> BinaryMirror cc)"

definition Run :: "('api, 'node) env \<Rightarrow> string list \<Rightarrow> event list \<times> outcome" where
  "Run e args =
     (let loaded = config_Load e (ClusterFlagValue e);
          version = loaded_version e loaded;
          binaryMirror = loaded_mirror loaded;
          cname = ClusterFlagValue e
      in case (if useSSH e then Run_ssh e cname args
               else Run_local e version binaryMirror cname args) of
           (called, result) \<Rightarrow> (ConfigLoad (ClusterFlagValue e) # called, result))"

text \<open>
  Modelled from the spec: the caller of the handler (the root command and \<open>main\<close>) is
  not part of the file. The exit status of the process is the argument of \<open>os.Exit\<close>,
  and 0 when the handler returns (section 6: exit code 0 on success).
\<close>

fun exit_status :: "outcome \<Rightarrow> int" where
  "exit_status Returned = 0"
| "exit_status (Exit rc) = rc"

subsection \<open>What a run passes on\<close>

text \<open>
  The version and the mirror a run holds after the load of the config, and the version
  \<open>KubectlCommand\<close> hands to \<open>node.CacheKubectlBinary\<close>.
\<close>

definition run_version :: "('api, 'node) env \<Rightarrow> string" where
  "run_version e = loaded_version e (config_Load e (ClusterFlagValue e))"

definition run_mirror :: "('api, 'node) env \<Rightarrow> string" where
  "run_mirror e = loaded_mirror (config_Load e (ClusterFlagValue e))"

definition locator_version :: "('api, 'node) env \<Rightarrow> string" where
  "locator_version e =
     (if run_version e = [] then DefaultKubernetesVersion e else run_version e)"

subsection \<open>The output of the embedded command\<close>

text \<open>
  The lines of the output as the scanner cuts them, carriage return dropped; whether a
  line is too long for the scanner's buffer; a line without its description, which is
  what follows the first tab; and the directive a line stands for, read as the code reads
  the last element of \<open>completions\<close>. \<open>Itoa\<close> is \<open>strconv.Itoa\<close>, the decimal
  form of an \<open>int\<close>, and \<open>int_range\<close> says that an integer is a value of
  \<open>int\<close>.
\<close>

definition strip_description :: "string \<Rightarrow> string" where
  "strip_description line = Split line [tab] ! 0"

definition output_lines :: "string \<Rightarrow> string list" where
  "output_lines out = map dropCR (ScanLines_tokens [] out)"

definition line_too_long :: "string \<Rightarrow> bool" where
  "line_too_long out = list_ex (\<lambda>t. MaxScanTokenSize \<le> length t) (ScanLines_tokens [] out)"

definition parse_directive :: "nat \<Rightarrow> string \<Rightarrow> NumError + int" where
  "parse_directive intSize line = Atoi intSize (TrimPrefix (strip_description line) '':'')"

definition digit_char :: "nat \<Rightarrow> char" where
  "digit_char d = ''0123456789'' ! d"

fun decimal :: "nat \<Rightarrow> string" where
  "decimal n = (if n < 10 then [digit_char n] else decimal (n div 10) @ [digit_char (n mod 10)])"

definition Itoa :: "int \<Rightarrow> string" where
  "Itoa i = (if i < 0 then CHR ''-'' # decimal (nat (- i)) else decimal (nat i))"

definition int_range :: "nat \<Rightarrow> int \<Rightarrow> bool" where
  "int_range intSize i = (- (2 ^ (intSize - 1)) \<le> i \<and> i < 2 ^ (intSize - 1))"

subsection \<open>Clean paths\<close>

text \<open>
  A plain element is a name between slashes that \<open>Clean\<close> keeps as it is; a rooted clean
  path is a slash followed by plain elements with single slashes between them.
\<close>

definition plain_element :: "string \<Rightarrow> bool" where
  "plain_element x = (x \<noteq> [] \<and> slash \<notin> set x \<and> x \<noteq> ''.'' \<and> x \<noteq> ''..'')"

definition rooted_clean :: "string \<Rightarrow> bool" where
  "rooted_clean p =
     (case p of
        [] \<Rightarrow> False
      | c # cs \<Rightarrow> c = slash \<and> list_all plain_element (path_elements [] cs))"

subsection \<open>An example environment\<close>

text \<open>
  A cluster named minikube at v1.19.4 on an amd64 host, with a kubectl that exits with
  status 42. The examples below vary it field by field.
\<close>

definition example_config :: ClusterConfig where
  "example_config = \<lparr>KubernetesConfig = \<lparr>KubernetesVersion = ''v1.19.4''\<rparr>, BinaryMirror = []\<rparr>"

definition example_env :: "(unit, unit) env" where
  "example_env =
     \<lparr>useSSH = False,
      ClusterFlagValue = ''minikube'',
      DefaultKubernetesVersion = ''v1.20.0'',
      SupportedArchitectures = [''amd64'', ''arm'', ''arm64'', ''ppc64le'', ''s390x''],
      GuestPersistentDir = ''/var/lib/minikube'',
      config_Load = (\<lambda>name. Inr example_config),
      mustload_Running =
        (\<lambda>name. Inr \<lparr>API = (), Config = example_config, CP_Node = ()\<rparr>),
      machine_CreateSSHShell = (\<lambda>api cfg n args native. None),
      detect_RuntimeArch = ''amd64'',
      node_CacheKubectlBinary = (\<lambda>version mirror. Inr (''/cache/'' @ version @ ''/kubectl'')),
      run_child = (\<lambda>c. Terminated (WExited 42))\<rparr>"

text \<open>
  Outputs of the embedded command: \<open>kubectl_prints out\<close> succeeds and writes \<open>out\<close>.
  \<open>long_output\<close> has a first line of 65536 bytes and the directive line \<open>:4\<close>;
  \<open>padded_output\<close> is the single line of 65535 zeros and a 4; \<open>overflow_output\<close> is
  the single line \<open>:9223372036854775808\<close>, which is 2 ^ 63; \<open>error_directive_output\<close>
  is the single line \<open>:1\<close>, the error directive.
\<close>

definition kubectl_prints :: "string \<Rightarrow> string list \<Rightarrow> error option \<times> string" where
  "kubectl_prints out = (\<lambda>args. (None, out))"

definition long_line :: string where
  "long_line = replicate MaxScanTokenSize (CHR ''a'')"

definition padded_directive :: string where
  "padded_directive = replicate (MaxScanTokenSize - 1) (CHR ''0'') @ ''4''"

definition long_output :: string where
  "long_output = long_line @ [newline] @ '':4'' @ [newline]"

definition padded_output :: string where
  "padded_output = padded_directive @ [newline]"

definition overflow_output :: string where
  "overflow_output = '':9223372036854775808'' @ [newline]"

definition error_directive_output :: string where
  "error_directive_output = '':1'' @ [newline]"

section \<open>Properties\<close>

subsection \<open>Helper lemmas on a run\<close>

lemma example_env_simps:
  "useSSH example_env = False"
  "ClusterFlagValue example_env = ''minikube''"
  "DefaultKubernetesVersion example_env = ''v1.20.0''"
  "SupportedArchitectures example_env = [''amd64'', ''arm'', ''arm64'', ''ppc64le'', ''s390x'']"
  "GuestPersistentDir example_env = ''/var/lib/minikube''"
  "config_Load example_env = (\<lambda>name. Inr example_config)"
  "mustload_Running example_env = (\<lambda>name. Inr \<lparr>API = (), Config = example_config, CP_Node = ()\<rparr>)"
  "machine_CreateSSHShell example_env = (\<lambda>api cfg n args native. None)"
  "detect_RuntimeArch example_env = ''amd64''"
  "node_CacheKubectlBinary example_env = (\<lambda>version mirror. Inr (''/cache/'' @ version @ ''/kubectl''))"
  "run_child example_env = (\<lambda>c. Terminated (WExited 42))"
  by (simp_all add: example_env_def)

lemma example_env_version:
  "run_version example_env = ''v1.19.4''"
  "run_mirror example_env = []"
  "locator_version example_env = ''v1.19.4''"
  by (simp_all add: locator_version_def run_version_def run_mirror_def loaded_version_def
      loaded_mirror_def example_env_simps example_config_def)

lemma supported_loop_iff: "supported_loop arch as = (arch \<in> set as)"
  by (induction as) auto

lemma Run_local_mode:
  "\<not> useSSH e \<Longrightarrow>
   Run e args =
     (ConfigLoad (ClusterFlagValue e) #
        fst (Run_local e (run_version e) (run_mirror e) (ClusterFlagValue e) args),
      snd (Run_local e (run_version e) (run_mirror e) (ClusterFlagValue e) args))"
  by (simp add: Run_def run_version_def run_mirror_def Let_def split: prod.splits)

lemma Run_local_spawn:
  assumes "detect_RuntimeArch e \<in> set (SupportedArchitectures e)"
    and "node_CacheKubectlBinary e
           (if version = [] then DefaultKubernetesVersion e else version) mirror = Inr path"
  shows "Run_local e version mirror cname args =
     (let c = Command path (cluster_args cname args);
          called =
            [CacheKubectlBinary (if version = [] then DefaultKubernetesVersion e else version) mirror,
             KlogInfof (''Running '' @ path @ '' '' @ fmt_strings (cluster_args cname args)),
             CmdRun c]
      in case Cmd_Run (run_child e c) of
           None \<Rightarrow> (called, Returned)
         | Some (ExitError waitStatus) \<Rightarrow> (called, Exit (ExitStatus waitStatus))
         | Some (OtherError err) \<Rightarrow>
             (called @ [FprintfStderr (''Error running '' @ path @ '': '' @ err @ [newline])],
              Exit 1))"
  using assms
  by (simp add: Run_local_def KubectlCommand_def supported_loop_iff Let_def Command_def
      split: option.splits RunError.splits)

lemma Run_local_unsupported:
  "detect_RuntimeArch e \<notin> set (SupportedArchitectures e) \<Longrightarrow>
   Run_local e version mirror cname args =
     ([FprintfStderr (''Not supported on: '' @ detect_RuntimeArch e @ [newline])], Exit 1)"
  by (simp add: Run_local_def supported_loop_iff Let_def)

lemma Run_local_locator_failed:
  assumes "detect_RuntimeArch e \<in> set (SupportedArchitectures e)"
    and "node_CacheKubectlBinary e
           (if version = [] then DefaultKubernetesVersion e else version) mirror = Inl err"
  shows "Run_local e version mirror cname args =
     ([CacheKubectlBinary (if version = [] then DefaultKubernetesVersion e else version) mirror,
       OutErrLn (''Error caching kubectl: '' @ err)], Exit 1)"
  using assms
  by (simp add: Run_local_def KubectlCommand_def supported_loop_iff Let_def)

lemma Run_local_resolves:
  assumes "detect_RuntimeArch e \<in> set (SupportedArchitectures e)"
  shows "\<exists>called. fst (Run_local e version mirror cname args) =
     CacheKubectlBinary (if version = [] then DefaultKubernetesVersion e else version) mirror # called"
  using assms
  by (simp add: Run_local_def KubectlCommand_def supported_loop_iff Let_def
      split: sum.splits option.splits RunError.splits)

lemma Run_ssh_config_Load [simp]:
  "Run_ssh (e\<lparr>config_Load := f\<rparr>) cname args = Run_ssh e cname args"
  by (simp add: Run_ssh_def Let_def split: sum.splits option.splits)

lemma Run_local_config_Load [simp]:
  "Run_local (e\<lparr>config_Load := f\<rparr>) version mirror cname args =
   Run_local e version mirror cname args"
  by (simp add: Run_local_def KubectlCommand_def Let_def
      split: sum.splits option.splits RunError.splits)


subsection \<open>Helper lemmas on paths\<close>

lemma path_elements_no_slash:
  "slash \<notin> set a \<Longrightarrow> path_elements cur (a @ rest) = path_elements (cur @ a) rest"
  by (induction a arbitrary: cur) auto

lemma path_elements_join:
  "es \<noteq> [] \<Longrightarrow> \<forall>x \<in> set es. slash \<notin> set x \<Longrightarrow>
   path_elements cur (join_slash es) = (cur @ hd es) # tl es"
proof (induction es arbitrary: cur rule: join_slash.induct)
  case 1
  then show ?case by simp
next
  case (2 x)
  then show ?case using path_elements_no_slash[of x cur "[]"] by simp
next
  case (3 x y es)
  have "path_elements cur (x @ [slash] @ join_slash (y # es)) =
        path_elements (cur @ x) ([slash] @ join_slash (y # es))"
    using 3(2,3) by (simp add: path_elements_no_slash)
  then show ?case using 3 by simp
qed

lemma path_elements_nonempty: "path_elements cur s \<noteq> []"
  by (induction s arbitrary: cur) auto

lemma join_slash_Cons: "es \<noteq> [] \<Longrightarrow> join_slash (x # es) = x @ [slash] @ join_slash es"
  by (cases es) auto

lemma join_path_elements: "join_slash (path_elements cur s) = cur @ s"
  by (induction s arbitrary: cur) (auto simp: join_slash_Cons path_elements_nonempty)

lemma rooted_clean_example: "rooted_clean ''/var/lib/minikube''" "\<not> rooted_clean ''/''" "\<not> rooted_clean ''/a/''"
  by (simp_all add: rooted_clean_def plain_element_def slash_def)


lemma join_slash_append:
  "es \<noteq> [] \<Longrightarrow> fs \<noteq> [] \<Longrightarrow>
   join_slash (es @ fs) = join_slash es @ [slash] @ join_slash fs"
  by (induction es rule: join_slash.induct) (auto simp: join_slash_Cons)

lemma Clean_loop_plain:
  "\<forall>x \<in> set es. plain_element x \<Longrightarrow> Clean_loop rooted out es = rev es @ out"
  by (induction es arbitrary: out) (auto simp: plain_element_def)

lemma Clean_rooted_plain:
  assumes "es \<noteq> []" and "\<forall>x \<in> set es. plain_element x"
  shows "Clean (slash # join_slash es) = slash # join_slash es"
proof -
  have "\<forall>x \<in> set es. slash \<notin> set x"
    using assms(2) by (simp add: plain_element_def)
  then have "path_elements [] (join_slash es) = es"
    using assms(1) path_elements_join[of es "[]"] by simp
  then have "path_elements [] (slash # join_slash es) = [] # es"
    by simp
  then show ?thesis
    using assms(2) by (simp add: Clean_def Clean_loop_plain)
qed

lemma plain_element_literals:
  "plain_element ''binaries''" "plain_element ''kubectl''"
  by (simp_all add: plain_element_def slash_def)

lemma kubectlPath_plain:
  assumes "rooted_clean guestPersistentDir"
    and "plain_element (KubernetesVersion (KubernetesConfig cfg))"
  shows "kubectlPath guestPersistentDir cfg =
     guestPersistentDir @ ''/binaries/'' @ KubernetesVersion (KubernetesConfig cfg) @ ''/kubectl''"
proof -
  let ?v = "KubernetesVersion (KubernetesConfig cfg)"
  obtain g where g: "guestPersistentDir = slash # g"
    and gs: "list_all plain_element (path_elements [] g)"
    using assms(1) by (auto simp: rooted_clean_def split: list.splits)
  let ?gs = "path_elements [] g"
  let ?es = "?gs @ [''binaries'', ?v, ''kubectl'']"
  have plain: "\<forall>x \<in> set ?es. plain_element x"
    using gs assms(2) by (auto simp: list_all_iff plain_element_literals)
  have "join_slash ?es = g @ [slash] @ join_slash [''binaries'', ?v, ''kubectl'']"
    using join_slash_append[of ?gs "[''binaries'', ?v, ''kubectl'']"]
    by (simp add: path_elements_nonempty join_path_elements)
  then have shape: "slash # join_slash ?es =
      guestPersistentDir @ ''/binaries/'' @ ?v @ ''/kubectl''"
    by (simp add: g slash_def)
  have "join_slash [guestPersistentDir, ''binaries'', ?v, ''kubectl''] =
      guestPersistentDir @ ''/binaries/'' @ ?v @ ''/kubectl''"
    by (simp add: slash_def)
  then have "kubectlPath guestPersistentDir cfg =
      Clean (guestPersistentDir @ ''/binaries/'' @ ?v @ ''/kubectl'')"
    by (simp add: kubectlPath_def Join_def g)
  also have "\<dots> = Clean (slash # join_slash ?es)"
    by (simp only: shape)
  also have "\<dots> = slash # join_slash ?es"
    using Clean_rooted_plain[of ?es] plain by simp
  finally show ?thesis by (simp only: shape)
qed


lemma Run_ssh_mode:
  "useSSH e \<Longrightarrow>
   Run e args =
     (ConfigLoad (ClusterFlagValue e) # fst (Run_ssh e (ClusterFlagValue e) args),
      snd (Run_ssh e (ClusterFlagValue e) args))"
  by (simp add: Run_def Let_def split: prod.splits)

lemma Run_ssh_shell:
  "mustload_Running e cname = Inr co \<Longrightarrow>
   CreateSSHShell (ssh_args (GuestPersistentDir e) (Config co) args)
     \<in> set (fst (Run_ssh e cname args))"
  by (simp add: Run_ssh_def Let_def split: option.splits)

subsection \<open>The cluster flags of a local run\<close>

text \<open>
  C1, as amended. In local mode the arguments are left as they are when there is at
  most one of them, or when the first is the token \<open>--help\<close> or the completion request
  \<open>__complete\<close>; any other list of two or more arguments gets \<open>--cluster\<close> and the
  cluster name in front, once, the original arguments following unchanged and in order.
  These are the arguments of the kubectl subprocess that a local run starts.
\<close>

theorem cluster_flags_injection:
  "cluster_args cname args =
     (if length args \<le> 1 \<or> hd args = ''--help'' \<or> hd args = ShellCompRequestCmd
      then args else [''--cluster'', cname] @ args)
   \<and> (\<not> useSSH e \<and> detect_RuntimeArch e \<in> set (SupportedArchitectures e)
        \<and> node_CacheKubectlBinary e (locator_version e) (run_mirror e) = Inr path
      \<longrightarrow> CmdRun (Command path (cluster_args (ClusterFlagValue e) args))
            \<in> set (fst (Run e args)))"
proof -
  have a: "cluster_args cname args =
     (if length args \<le> 1 \<or> hd args = ''--help'' \<or> hd args = ShellCompRequestCmd
      then args else [''--cluster'', cname] @ args)"
    by (cases args) (auto simp: cluster_args_def)
  have b: "CmdRun (Command path (cluster_args (ClusterFlagValue e) args)) \<in> set (fst (Run e args))"
    if "\<not> useSSH e" "detect_RuntimeArch e \<in> set (SupportedArchitectures e)"
      "node_CacheKubectlBinary e (locator_version e) (run_mirror e) = Inr path"
    using that Run_local_spawn[of e "run_version e" "run_mirror e" path "ClusterFlagValue e" args]
    by (simp add: Run_local_mode locator_version_def Let_def split: option.splits RunError.splits)
  show ?thesis using a b by blast
qed

theorem cluster_flags_injection_witness:
  "cluster_args ''minikube'' [''get'', ''pods''] = [''--cluster'', ''minikube'', ''get'', ''pods'']
   \<and> cluster_args ''minikube'' [''--help'', ''get''] = [''--help'', ''get'']
   \<and> cluster_args ''minikube'' [''version''] = [''version'']
   \<and> CmdRun (Command ''/cache/v1.19.4/kubectl'' [''--cluster'', ''minikube'', ''get'', ''pods''])
        \<in> set (fst (Run example_env [''get'', ''pods'']))"
  using cluster_flags_injection [of "''minikube''" "[''get'', ''pods'']" example_env "''/cache/v1.19.4/kubectl''"]
    cluster_flags_injection [of "''minikube''" "[''--help'', ''get'']" example_env "''/cache/v1.19.4/kubectl''"]
    cluster_flags_injection [of "''minikube''" "[''version'']" example_env "''/cache/v1.19.4/kubectl''"]
  by (auto simp: example_env_simps example_env_version ShellCompRequestCmd_def)

text \<open>
  C1 as stated fails for a help flag other than \<open>--help\<close>: with \<open>-h\<close>, the short help
  flag of kubectl, in front of a second argument the cluster flags are put in front, and
  the subprocess is started with them.
\<close>

theorem cluster_flags_injection_counterexample:
  "cluster_args ''minikube'' [''-h'', ''pods''] = [''--cluster'', ''minikube'', ''-h'', ''pods'']
   \<and> cluster_args ''minikube'' [''-h'', ''pods''] \<noteq> [''-h'', ''pods'']
   \<and> CmdRun (Command ''/cache/v1.19.4/kubectl'' [''--cluster'', ''minikube'', ''-h'', ''pods''])
        \<in> set (fst (Run example_env [''-h'', ''pods'']))"
proof -
  have a: "cluster_args ''minikube'' [''-h'', ''pods''] =
      [''--cluster'', ''minikube'', ''-h'', ''pods'']"
    by (simp add: cluster_args_def ShellCompRequestCmd_def)
  have "fst (Run_local example_env ''v1.19.4'' [] ''minikube'' [''-h'', ''pods'']) =
      [CacheKubectlBinary ''v1.19.4'' [],
       KlogInfof (''Running /cache/v1.19.4/kubectl '' @ fmt_strings (cluster_args ''minikube'' [''-h'', ''pods''])),
       CmdRun (Command ''/cache/v1.19.4/kubectl'' (cluster_args ''minikube'' [''-h'', ''pods'']))]"
    using Run_local_spawn[of example_env "''v1.19.4''" "[]" "''/cache/v1.19.4/kubectl''"
        "''minikube''" "[''-h'', ''pods'']"]
    by (simp add: example_env_simps Let_def)
  then have "CmdRun (Command ''/cache/v1.19.4/kubectl'' [''--cluster'', ''minikube'', ''-h'', ''pods''])
        \<in> set (fst (Run example_env [''-h'', ''pods'']))"
    by (simp add: Run_local_mode example_env_simps example_env_version a)
  then show ?thesis
    using a by simp
qed

subsection \<open>The architecture gate\<close>

text \<open>
  C5. In local mode, when the detected architecture is one of the supported ones the run
  goes on to resolve the binary: the first call after the load of the config is the one
  to \<open>node.CacheKubectlBinary\<close>. When it is not, the run writes
  \<open>Not supported on: <arch>\<close> to standard error and exits with status 1, and neither
  resolves a binary nor starts a subprocess.
\<close>

theorem architecture_gate:
  assumes "\<not> useSSH e"
  shows "(detect_RuntimeArch e \<in> set (SupportedArchitectures e) \<longrightarrow>
            (\<exists>called. fst (Run e args) =
               ConfigLoad (ClusterFlagValue e) #
               CacheKubectlBinary (locator_version e) (run_mirror e) # called))
       \<and> (detect_RuntimeArch e \<notin> set (SupportedArchitectures e) \<longrightarrow>
            Run e args =
              ([ConfigLoad (ClusterFlagValue e),
                FprintfStderr (''Not supported on: '' @ detect_RuntimeArch e @ [newline])],
               Exit 1)
            \<and> (\<forall>v m. CacheKubectlBinary v m \<notin> set (fst (Run e args)))
            \<and> (\<forall>c. CmdRun c \<notin> set (fst (Run e args))))"
proof (intro conjI impI)
  assume "detect_RuntimeArch e \<in> set (SupportedArchitectures e)"
  from Run_local_resolves[OF this, of "run_version e" "run_mirror e" "ClusterFlagValue e" args]
  show "\<exists>called. fst (Run e args) =
               ConfigLoad (ClusterFlagValue e) #
               CacheKubectlBinary (locator_version e) (run_mirror e) # called"
    using assms by (simp add: Run_local_mode locator_version_def)
next
  assume u: "detect_RuntimeArch e \<notin> set (SupportedArchitectures e)"
  show r: "Run e args =
              ([ConfigLoad (ClusterFlagValue e),
                FprintfStderr (''Not supported on: '' @ detect_RuntimeArch e @ [newline])],
               Exit 1)"
    using assms by (simp add: Run_local_mode Run_local_unsupported[OF u])
  show "\<forall>v m. CacheKubectlBinary v m \<notin> set (fst (Run e args))" by (simp add: r)
  show "\<forall>c. CmdRun c \<notin> set (fst (Run e args))" by (simp add: r)
qed

theorem architecture_gate_witness:
  "(\<exists>called. fst (Run example_env [''get'', ''pods'']) =
      ConfigLoad ''minikube'' # CacheKubectlBinary ''v1.19.4'' [] # called)
   \<and> Run (example_env\<lparr>detect_RuntimeArch := ''riscv64''\<rparr>) [''get'', ''pods''] =
       ([ConfigLoad ''minikube'', FprintfStderr (''Not supported on: riscv64'' @ [newline])], Exit 1)"
  using architecture_gate [of example_env "[''get'', ''pods'']"]
    architecture_gate [of "example_env\<lparr>detect_RuntimeArch := ''riscv64''\<rparr>" "[''get'', ''pods'']"]
  by (simp add: example_env_simps example_env_version)

subsection \<open>A config that cannot be loaded\<close>



subsection \<open>The default version of \<open>KubectlCommand\<close>\<close>

text \<open>
  C7. With an empty version \<open>KubectlCommand\<close> does what it does with
  \<open>constants.DefaultKubernetesVersion\<close>: it calls \<open>node.CacheKubectlBinary\<close> with the
  default version and the mirror, returns its error if it fails, and otherwise the
  command whose path is the one returned and whose arguments are the given ones.
\<close>

theorem KubectlCommand_empty_version:
  "KubectlCommand e [] binaryURL args = KubectlCommand e (DefaultKubernetesVersion e) binaryURL args
   \<and> KubectlCommand e [] binaryURL args =
       ([CacheKubectlBinary (DefaultKubernetesVersion e) binaryURL],
        case node_CacheKubectlBinary e (DefaultKubernetesVersion e) binaryURL of
          Inl err \<Rightarrow> Inl err
        | Inr path \<Rightarrow> Inr \<lparr>Path = path, Args = path # args\<rparr>)"
  by (simp add: KubectlCommand_def Command_def split: sum.splits)

theorem KubectlCommand_empty_version_witness:
  "KubectlCommand example_env [] ''https://mirror'' [''version''] =
     ([CacheKubectlBinary ''v1.20.0'' ''https://mirror''],
      Inr \<lparr>Path = ''/cache/v1.20.0/kubectl'', Args = [''/cache/v1.20.0/kubectl'', ''version'']\<rparr>)"
  using KubectlCommand_empty_version [of example_env "''https://mirror''" "[''version'']"]
  by (auto simp: example_env_simps)

subsection \<open>A binary that cannot be resolved\<close>

text \<open>
  C8. In local mode on a supported architecture, when \<open>node.CacheKubectlBinary\<close> fails
  the run reports \<open>Error caching kubectl: <err>\<close> through \<open>out.ErrLn\<close> and exits
  with status 1; no subprocess is started.
\<close>

theorem locator_failure_is_fatal:
  assumes "\<not> useSSH e"
    and "detect_RuntimeArch e \<in> set (SupportedArchitectures e)"
    and "node_CacheKubectlBinary e (locator_version e) (run_mirror e) = Inl err"
  shows "Run e args =
           ([ConfigLoad (ClusterFlagValue e),
             CacheKubectlBinary (locator_version e) (run_mirror e),
             OutErrLn (''Error caching kubectl: '' @ err)],
            Exit 1)
         \<and> (\<forall>c. CmdRun c \<notin> set (fst (Run e args)))"
proof -
  have "Run e args =
           ([ConfigLoad (ClusterFlagValue e),
             CacheKubectlBinary (locator_version e) (run_mirror e),
             OutErrLn (''Error caching kubectl: '' @ err)],
            Exit 1)"
    using assms Run_local_locator_failed[of e "run_version e" "run_mirror e" err "ClusterFlagValue e" args]
    by (simp add: Run_local_mode locator_version_def)
  then show ?thesis by simp
qed

theorem locator_failure_is_fatal_witness:
  "Run (example_env\<lparr>node_CacheKubectlBinary := (\<lambda>version mirror. Inl ''download failed'')\<rparr>)
       [''get'', ''pods''] =
     ([ConfigLoad ''minikube'', CacheKubectlBinary ''v1.19.4'' [],
       OutErrLn ''Error caching kubectl: download failed''], Exit 1)"
  using locator_failure_is_fatal
    [of "example_env\<lparr>node_CacheKubectlBinary := (\<lambda>version mirror. Inl ''download failed'')\<rparr>"
        "''download failed''" "[''get'', ''pods'']"]
  by (auto simp: example_env_simps example_config_def locator_version_def run_version_def
      run_mirror_def loaded_version_def loaded_mirror_def)

subsection \<open>The exit status of the subprocess\<close>

text \<open>
  C3, as amended. In a local run that starts kubectl: when the child exits with status
  \<open>n\<close>, the process ends with status \<open>n\<close> (through \<open>os.Exit\<close> when \<open>n\<close> is not 0,
  by returning from the handler when it is) and writes nothing to standard error; when
  the error of running the child is not an \<open>*exec.ExitError\<close>, because the child could
  not be started or waited for, the last thing the run does is write
  \<open>Error running <path>: <err>\<close> to standard error, and it exits with status 1.
\<close>

theorem child_status_propagation:
  assumes "\<not> useSSH e"
    and "detect_RuntimeArch e \<in> set (SupportedArchitectures e)"
    and "node_CacheKubectlBinary e (locator_version e) (run_mirror e) = Inr path"
  shows "(run_child e (Command path (cluster_args (ClusterFlagValue e) args)) = Terminated (WExited n) \<longrightarrow>
            exit_status (snd (Run e args)) = n
            \<and> snd (Run e args) = (if n = 0 then Returned else Exit n)
            \<and> (\<forall>msg. FprintfStderr msg \<notin> set (fst (Run e args))))
       \<and> (run_child e (Command path (cluster_args (ClusterFlagValue e) args)) = NotRun err \<longrightarrow>
            snd (Run e args) = Exit 1
            \<and> exit_status (snd (Run e args)) = 1
            \<and> last (fst (Run e args)) =
                FprintfStderr (''Error running '' @ path @ '': '' @ err @ [newline]))"
  using assms Run_local_spawn[of e "run_version e" "run_mirror e" path "ClusterFlagValue e" args]
  by (simp add: Run_local_mode locator_version_def Let_def)

theorem child_status_propagation_witness:
  "exit_status (snd (Run example_env [''get'', ''pods''])) = 42
   \<and> snd (Run example_env [''get'', ''pods'']) = Exit 42
   \<and> snd (Run (example_env\<lparr>run_child := (\<lambda>c. NotRun ''exec format error'')\<rparr>) [''get'', ''pods''])
        = Exit 1
   \<and> last (fst (Run (example_env\<lparr>run_child := (\<lambda>c. NotRun ''exec format error'')\<rparr>)
                  [''get'', ''pods''])) =
       FprintfStderr (''Error running /cache/v1.19.4/kubectl: exec format error'' @ [newline])"
  using child_status_propagation
      [of example_env "''/cache/v1.19.4/kubectl''" "[''get'', ''pods'']" 42 "[]"]
    child_status_propagation
      [of "example_env\<lparr>run_child := (\<lambda>c. NotRun ''exec format error'')\<rparr>"
          "''/cache/v1.19.4/kubectl''" "[''get'', ''pods'']" 0 "''exec format error''"]
  by (auto simp: example_env_simps example_config_def locator_version_def run_version_def
      run_mirror_def loaded_version_def loaded_mirror_def)

text \<open>
  A child killed by a signal is neither case: the error is an \<open>*exec.ExitError\<close>, its
  wait status has no exit status, and the run calls \<open>os.Exit\<close> with what
  \<open>ExitStatus\<close> returns then, -1.
\<close>

lemma child_killed_by_signal:
  assumes "\<not> useSSH e"
    and "detect_RuntimeArch e \<in> set (SupportedArchitectures e)"
    and "node_CacheKubectlBinary e (locator_version e) (run_mirror e) = Inr path"
    and "run_child e (Command path (cluster_args (ClusterFlagValue e) args)) =
           Terminated (WSignaled sig)"
  shows "snd (Run e args) = Exit (- 1)"
  using assms Run_local_spawn[of e "run_version e" "run_mirror e" path "ClusterFlagValue e" args]
  by (simp add: Run_local_mode locator_version_def Let_def)

text \<open>
  C3 as stated fails for such a child: its termination has no exit status, and the run
  writes nothing to standard error and does not exit with status 1. Here kubectl is
  killed by signal 9.
\<close>

theorem child_status_propagation_counterexample:
  "Cmd_Run (Terminated (WSignaled 9)) = Some (ExitError (WSignaled 9))
   \<and> Run (example_env\<lparr>run_child := (\<lambda>c. Terminated (WSignaled 9))\<rparr>) [''get'', ''pods''] =
       ([ConfigLoad ''minikube'',
         CacheKubectlBinary ''v1.19.4'' [],
         KlogInfof ''Running /cache/v1.19.4/kubectl [--cluster minikube get pods]'',
         CmdRun (Command ''/cache/v1.19.4/kubectl'' [''--cluster'', ''minikube'', ''get'', ''pods''])],
        Exit (- 1))
   \<and> snd (Run (example_env\<lparr>run_child := (\<lambda>c. Terminated (WSignaled 9))\<rparr>)
             [''get'', ''pods'']) \<noteq> Exit 1"
proof -
  let ?e = "example_env\<lparr>run_child := (\<lambda>c. Terminated (WSignaled 9))\<rparr>"
  have v: "run_version ?e = ''v1.19.4''" "run_mirror ?e = []"
    by (simp_all add: run_version_def run_mirror_def loaded_version_def loaded_mirror_def
        example_env_simps example_config_def)
  have a: "cluster_args ''minikube'' [''get'', ''pods''] =
      [''--cluster'', ''minikube'', ''get'', ''pods'']"
    by (simp add: cluster_args_def ShellCompRequestCmd_def)
  have "Run_local ?e ''v1.19.4'' [] ''minikube'' [''get'', ''pods''] =
       ([CacheKubectlBinary ''v1.19.4'' [],
         KlogInfof ''Running /cache/v1.19.4/kubectl [--cluster minikube get pods]'',
         CmdRun (Command ''/cache/v1.19.4/kubectl'' [''--cluster'', ''minikube'', ''get'', ''pods''])],
        Exit (- 1))"
    using Run_local_spawn[of ?e "''v1.19.4''" "[]" "''/cache/v1.19.4/kubectl''"
        "''minikube''" "[''get'', ''pods'']"]
    by (simp add: example_env_simps Let_def a fmt_strings_def)
  then have "Run ?e [''get'', ''pods''] =
       ([ConfigLoad ''minikube'',
         CacheKubectlBinary ''v1.19.4'' [],
         KlogInfof ''Running /cache/v1.19.4/kubectl [--cluster minikube get pods]'',
         CmdRun (Command ''/cache/v1.19.4/kubectl'' [''--cluster'', ''minikube'', ''get'', ''pods''])],
        Exit (- 1))"
    by (simp add: Run_local_mode example_env_simps v)
  then show ?thesis by simp
qed

subsection \<open>The arguments of the remote kubectl\<close>

text \<open>
  C2, as amended. In remote mode the arguments handed to the SSH shell are \<open>sudo\<close>, the
  path \<open>path.Join(GuestPersistentDir, "binaries", v, "kubectl")\<close> for the Kubernetes
  version \<open>v\<close> of the config, \<open>--kubeconfig\<close>, \<open>/etc/kubernetes/admin.conf\<close>, and
  then the original arguments as they are. The joined path is cleaned; it is
  \<open>GuestPersistentDir/binaries/v/kubectl\<close> when \<open>GuestPersistentDir\<close> is a rooted clean
  path and \<open>v\<close> is a plain element. For the arguments \<open>get pods\<close> and the path \<open>P\<close>
  the list is \<open>sudo P --kubeconfig /etc/kubernetes/admin.conf get pods\<close>.
\<close>

theorem ssh_argument_list:
  "ssh_args g cfg args =
     [''sudo'', Join [g, ''binaries'', KubernetesVersion (KubernetesConfig cfg), ''kubectl''],
      ''--kubeconfig'', ''/etc/kubernetes/admin.conf''] @ args
   \<and> (rooted_clean g \<and> plain_element (KubernetesVersion (KubernetesConfig cfg)) \<longrightarrow>
        ssh_args g cfg args =
          [''sudo'', g @ ''/binaries/'' @ KubernetesVersion (KubernetesConfig cfg) @ ''/kubectl'',
           ''--kubeconfig'', ''/etc/kubernetes/admin.conf''] @ args)
   \<and> (kubectlPath g cfg = P \<longrightarrow>
        ssh_args g cfg [''get'', ''pods''] =
          [''sudo'', P, ''--kubeconfig'', ''/etc/kubernetes/admin.conf'', ''get'', ''pods''])
   \<and> (useSSH e \<and> mustload_Running e (ClusterFlagValue e) = Inr co \<longrightarrow>
        CreateSSHShell (ssh_args (GuestPersistentDir e) (Config co) args) \<in> set (fst (Run e args)))"
proof (intro conjI impI)
  show "ssh_args g cfg args =
     [''sudo'', Join [g, ''binaries'', KubernetesVersion (KubernetesConfig cfg), ''kubectl''],
      ''--kubeconfig'', ''/etc/kubernetes/admin.conf''] @ args"
    by (simp add: ssh_args_def kubectlPath_def kubeconfigPath_def Let_def)
next
  assume "rooted_clean g \<and> plain_element (KubernetesVersion (KubernetesConfig cfg))"
  then show "ssh_args g cfg args =
          [''sudo'', g @ ''/binaries/'' @ KubernetesVersion (KubernetesConfig cfg) @ ''/kubectl'',
           ''--kubeconfig'', ''/etc/kubernetes/admin.conf''] @ args"
    by (simp add: ssh_args_def kubectlPath_plain kubeconfigPath_def Let_def)
next
  assume "kubectlPath g cfg = P"
  then show "ssh_args g cfg [''get'', ''pods''] =
          [''sudo'', P, ''--kubeconfig'', ''/etc/kubernetes/admin.conf'', ''get'', ''pods'']"
    by (simp add: ssh_args_def kubeconfigPath_def Let_def)
next
  assume "useSSH e \<and> mustload_Running e (ClusterFlagValue e) = Inr co"
  then show "CreateSSHShell (ssh_args (GuestPersistentDir e) (Config co) args)
      \<in> set (fst (Run e args))"
    by (simp add: Run_ssh_mode Run_ssh_shell)
qed

theorem ssh_argument_list_witness:
  "ssh_args ''/var/lib/minikube'' example_config [''get'', ''pods''] =
     [''sudo'', ''/var/lib/minikube/binaries/v1.19.4/kubectl'',
      ''--kubeconfig'', ''/etc/kubernetes/admin.conf'', ''get'', ''pods'']
   \<and> CreateSSHShell
         [''sudo'', ''/var/lib/minikube/binaries/v1.19.4/kubectl'',
          ''--kubeconfig'', ''/etc/kubernetes/admin.conf'', ''get'', ''pods'']
       \<in> set (fst (Run (example_env\<lparr>useSSH := True\<rparr>) [''get'', ''pods'']))"
  using ssh_argument_list
    [of "''/var/lib/minikube''" example_config "[''get'', ''pods'']"
        "''/var/lib/minikube/binaries/v1.19.4/kubectl''" "example_env\<lparr>useSSH := True\<rparr>"
        "\<lparr>API = (), Config = example_config, CP_Node = ()\<rparr>"]
  by (auto simp: example_env_simps example_config_def rooted_clean_def plain_element_def slash_def)

text \<open>
  C2 as stated fails for a version that is not a plain element: with the empty version
  the joined path has no element for it.
\<close>

theorem ssh_argument_list_counterexample:
  "ssh_args ''/var/lib/minikube''
      \<lparr>KubernetesConfig = \<lparr>KubernetesVersion = []\<rparr>, BinaryMirror = []\<rparr> [''get'', ''pods''] =
     [''sudo'', ''/var/lib/minikube/binaries/kubectl'',
      ''--kubeconfig'', ''/etc/kubernetes/admin.conf'', ''get'', ''pods'']
   \<and> ssh_args ''/var/lib/minikube''
      \<lparr>KubernetesConfig = \<lparr>KubernetesVersion = []\<rparr>, BinaryMirror = []\<rparr> [''get'', ''pods''] \<noteq>
     [''sudo'', ''/var/lib/minikube'' @ ''/binaries/'' @ [] @ ''/kubectl'',
      ''--kubeconfig'', ''/etc/kubernetes/admin.conf''] @ [''get'', ''pods'']"
  by (simp add: ssh_args_def kubectlPath_def kubeconfigPath_def Join_def Clean_def slash_def Let_def)

subsection \<open>Shell completion\<close>

lemma Split_from_first:
  "Split_from [t] cur s ! 0 = cur @ takeWhile (\<lambda>c. c \<noteq> t) s"
  by (induction s arbitrary: cur) auto

lemma strip_description_takeWhile:
  "strip_description line = takeWhile (\<lambda>c. c \<noteq> tab) line"
  by (simp add: strip_description_def Split_def Split_from_first)

lemma scan_loop_result:
  "scan_loop ts acc =
     (if list_ex (\<lambda>t. MaxScanTokenSize \<le> length t) ts
      then (acc @ map (\<lambda>t. strip_description (dropCR t))
                    (takeWhile (\<lambda>t. length t < MaxScanTokenSize) ts), Some ErrTooLong)
      else (acc @ map (\<lambda>t. strip_description (dropCR t)) ts, None))"
  by (induction ts arbitrary: acc) (auto simp: strip_description_def)


lemma completions_of_lines:
  "\<not> line_too_long out \<Longrightarrow>
   scan_loop (ScanLines_tokens [] out) [] = (map strip_description (output_lines out), None)"
  by (simp add: scan_loop_result line_too_long_def output_lines_def comp_def)

lemma completions_too_long:
  "line_too_long out \<Longrightarrow> snd (scan_loop (ScanLines_tokens [] out) []) = Some ErrTooLong"
  by (simp add: scan_loop_result line_too_long_def)

lemma last_completion:
  "ls \<noteq> [] \<Longrightarrow>
   map strip_description ls ! (length (map strip_description ls) - 1) = strip_description (last ls)"
  by (simp add: last_conv_nth)

lemma ValidArgsFunction_failed:
  "fst (Execute ([ShellCompRequestCmd] @ (args @ [toComplete]))) \<noteq> None \<Longrightarrow>
   ValidArgsFunction intSize Execute args toComplete = (None, ShellCompDirectiveError)"
  by (auto simp: ValidArgsFunction_def split: prod.splits option.splits)

lemma ValidArgsFunction_too_long:
  "line_too_long (snd (Execute ([ShellCompRequestCmd] @ (args @ [toComplete])))) \<Longrightarrow>
   ValidArgsFunction intSize Execute args toComplete = (None, ShellCompDirectiveError)"
  using completions_too_long[of "snd (Execute ([ShellCompRequestCmd] @ (args @ [toComplete])))"]
  by (auto simp: ValidArgsFunction_def split: prod.splits option.splits)

lemma ValidArgsFunction_scanned:
  assumes ex: "Execute ([ShellCompRequestCmd] @ (args @ [toComplete])) = (None, out)"
    and short: "\<not> line_too_long out"
  shows "ValidArgsFunction intSize Execute args toComplete =
     (if output_lines out = [] then (None, ShellCompDirectiveError)
      else case parse_directive intSize (last (output_lines out)) of
             Inl err \<Rightarrow> (None, ShellCompDirectiveError)
           | Inr directive \<Rightarrow>
               (Some (map strip_description (butlast (output_lines out))), directive))"
proof -
  define completions where "completions = map strip_description (output_lines out)"
  have scan: "scan_loop (ScanLines_tokens [] out) [] = (completions, None)"
    using short by (simp add: completions_of_lines completions_def)
  have unfold: "ValidArgsFunction intSize Execute args toComplete =
     (if length completions = 0 then (None, ShellCompDirectiveError)
      else case Atoi intSize (TrimPrefix (completions ! (length completions - 1)) '':'') of
             Inl err \<Rightarrow> (None, ShellCompDirectiveError)
           | Inr directive \<Rightarrow> (Some (take (length completions - 1) completions), directive))"
    by (simp only: ValidArgsFunction_def ex scan prod.case option.case) simp
  show ?thesis
  proof (cases "output_lines out = []")
    case True
    then show ?thesis by (simp add: unfold completions_def)
  next
    case False
    have l: "completions ! (length completions - 1) = strip_description (last (output_lines out))"
      unfolding completions_def using False by (rule last_completion)
    have b: "take (length completions - 1) completions =
        map strip_description (butlast (output_lines out))"
      by (simp add: completions_def butlast_conv_take take_map)
    have ne: "length completions \<noteq> 0"
      using False by (simp add: completions_def)
    show ?thesis
      by (simp only: unfold l b ne False if_False parse_directive_def)
  qed
qed

text \<open>
  C4, as amended. When the embedded command fails, or a line of its output has 65536
  bytes or more (the scanner stops with \<open>ErrTooLong\<close>), or the output has no line, or
  the last line, cut at its first tab and without a leading colon, is not the decimal
  form of an \<open>int\<close>, the function returns no candidates and the error directive.
  Otherwise it returns the lines but the last, each cut at its first tab, in their order,
  and the integer of the last line as the directive.
\<close>

theorem completion_proxy:
  "ValidArgsFunction intSize Execute args toComplete =
     (case Execute (ShellCompRequestCmd # args @ [toComplete]) of
        (err, out) \<Rightarrow>
          if err \<noteq> None \<or> line_too_long out \<or> output_lines out = []
             \<or> isl (parse_directive intSize (last (output_lines out)))
          then (None, ShellCompDirectiveError)
          else (Some (map strip_description (butlast (output_lines out))),
                projr (parse_directive intSize (last (output_lines out)))))"
proof (cases "Execute (ShellCompRequestCmd # args @ [toComplete])")
  case (Pair err out)
  show ?thesis
  proof (cases "err \<noteq> None \<or> line_too_long out")
    case True
    then show ?thesis
      using Pair ValidArgsFunction_failed[of Execute args toComplete intSize]
        ValidArgsFunction_too_long[of Execute args toComplete intSize]
      by auto
  next
    case False
    then show ?thesis
      using Pair ValidArgsFunction_scanned[of Execute args toComplete out intSize]
      by (auto split: sum.splits)
  qed
qed


declare decimal.simps [simp del]

lemma digit_char_digit:
  assumes "d < 10"
  shows "is_digit (digit_char d) \<and> digit_val (digit_char d) = d"
proof -
  have "d = 0 \<or> d = 1 \<or> d = 2 \<or> d = 3 \<or> d = 4
      \<or> d = 5 \<or> d = 6 \<or> d = 7 \<or> d = 8 \<or> d = 9"
    using assms by presburger
  then show ?thesis
    by (elim disjE) (simp_all add: digit_char_def is_digit_def digit_val_def)
qed

lemma ParseUint_loop_append:
  "ParseUint_loop m acc (xs @ ys) =
     (case ParseUint_loop m acc xs of Inl e \<Rightarrow> Inl e | Inr v \<Rightarrow> ParseUint_loop m v ys)"
  by (induction xs arbitrary: acc) auto

lemma times_ten_le: "(x::nat) * 10 \<le> y \<Longrightarrow> y \<le> m \<Longrightarrow> x \<le> m"
  by arith

lemma ParseUint_loop_decimal:
  "acc * 10 ^ length (decimal n) + n \<le> m \<Longrightarrow>
   ParseUint_loop m acc (decimal n) = Inr (acc * 10 ^ length (decimal n) + n)"
proof (induction n arbitrary: acc rule: decimal.induct)
  case (1 n)
  show ?case
  proof (cases "n < 10")
    case True
    then show ?thesis
      using 1(2) by (simp add: decimal.simps[of n] digit_char_digit)
  next
    case False
    let ?k = "length (decimal (n div 10))"
    have len: "length (decimal n) = Suc ?k"
      using False by (simp add: decimal.simps[of n])
    have bound: "acc * 10 ^ Suc ?k + n \<le> m"
      using 1(2) len by simp
    have "(acc * 10 ^ ?k + n div 10) * 10 \<le> acc * 10 ^ Suc ?k + n"
      by (simp add: algebra_simps)
    then have "acc * 10 ^ ?k + n div 10 \<le> m"
      using bound times_ten_le by blast
    then have ih: "ParseUint_loop m acc (decimal (n div 10)) = Inr (acc * 10 ^ ?k + n div 10)"
      using 1(1) False by simp
    have last: "(acc * 10 ^ ?k + n div 10) * 10 + n mod 10 = acc * 10 ^ Suc ?k + n"
      by (simp add: algebra_simps)
    have d: "n mod 10 < 10" by simp
    show ?thesis
      using False bound last digit_char_digit[OF d]
      by (simp add: decimal.simps[of n] ParseUint_loop_append ih len)
  qed
qed

lemma decimal_nonempty: "decimal n \<noteq> []"
  by (simp add: decimal.simps[of n])

lemma ParseUint_decimal:
  "n \<le> 2 ^ bitSize - 1 \<Longrightarrow> ParseUint bitSize (decimal n) = Inr n"
  using ParseUint_loop_decimal[of 0 n "2 ^ bitSize - 1"]
  by (simp add: ParseUint_def decimal_nonempty)


lemma decimal_digits: "c \<in> set (decimal n) \<Longrightarrow> is_digit c"
proof (induction n rule: decimal.induct)
  case (1 n)
  have d: "n mod 10 < 10" by simp
  show ?case
  proof (cases "n < 10")
    case True
    then show ?thesis using 1(2) by (simp add: decimal.simps[of n] digit_char_digit)
  next
    case False
    then show ?thesis
      using 1 digit_char_digit[OF d] by (auto simp: decimal.simps[of n])
  qed
qed

lemma decimal_Cons: "\<exists>c cs. decimal n = c # cs \<and> is_digit c"
  using decimal_nonempty[of n] decimal_digits[of _ n] by (cases "decimal n") auto

lemma is_digit_not_sign:
  "is_digit c \<Longrightarrow> c \<noteq> CHR ''-'' \<and> c \<noteq> CHR ''+'' \<and> c \<noteq> CHR '':'' \<and> c \<noteq> tab"
  by (auto simp: is_digit_def tab_def)

lemma half_range: "0 < bitSize \<Longrightarrow> (2::nat) ^ (bitSize - 1) \<le> 2 ^ bitSize - 1"
  by (cases bitSize) auto

lemma ParseInt_decimal:
  assumes "0 < bitSize" and "n < 2 ^ (bitSize - 1)"
  shows "ParseInt bitSize (decimal n) = Inr (int n)"
proof -
  obtain c cs where s: "decimal n = c # cs" and c: "is_digit c"
    using decimal_Cons by blast
  have "n \<le> 2 ^ bitSize - 1"
    using assms half_range[of bitSize] by linarith
  then have "ParseUint bitSize (c # cs) = Inr n"
    using ParseUint_decimal[of n bitSize] s by simp
  then show ?thesis
    using assms(2) is_digit_not_sign[OF c] by (simp add: ParseInt_def s)
qed

lemma ParseInt_minus_decimal:
  assumes "0 < bitSize" and "n \<le> 2 ^ (bitSize - 1)"
  shows "ParseInt bitSize (CHR ''-'' # decimal n) = Inr (- int n)"
proof -
  have "n \<le> 2 ^ bitSize - 1"
    using assms half_range[of bitSize] by linarith
  then have "ParseUint bitSize (decimal n) = Inr n"
    by (rule ParseUint_decimal)
  then show ?thesis
    using assms(2) by (simp add: ParseInt_def)
qed

lemma Atoi_Itoa:
  assumes "0 < intSize" and "int_range intSize i"
  shows "Atoi intSize (Itoa i) = Inr i"
proof (cases "i < 0")
  case True
  have "int (nat (- i)) \<le> 2 ^ (intSize - 1)"
    using assms(2) True by (simp add: int_range_def)
  then have "nat (- i) \<le> 2 ^ (intSize - 1)"
    by (metis of_nat_le_iff of_nat_numeral of_nat_power)
  then show ?thesis
    using True ParseInt_minus_decimal[OF assms(1), of "nat (- i)"]
    by (simp add: Atoi_def Itoa_def)
next
  case False
  have "int (nat i) < 2 ^ (intSize - 1)"
    using assms(2) False by (simp add: int_range_def)
  then have "nat i < 2 ^ (intSize - 1)"
    by (metis of_nat_less_iff of_nat_numeral of_nat_power)
  then show ?thesis
    using False ParseInt_decimal[OF assms(1), of "nat i"]
    by (simp add: Atoi_def Itoa_def)
qed

lemma not_digits:
  "\<not> is_digit tab" "\<not> is_digit newline" "\<not> is_digit (CHR '':'')" "\<not> is_digit (CHR ''-'')"
  by (simp_all add: is_digit_def tab_def newline_def)

lemma Itoa_no_tab: "tab \<notin> set (Itoa i)"
  using decimal_digits not_digits by (auto simp: Itoa_def tab_def)

lemma Itoa_no_newline: "newline \<notin> set (Itoa i)"
  using decimal_digits not_digits by (auto simp: Itoa_def newline_def)

lemma Itoa_no_colon: "\<not> prefix '':'' (Itoa i)"
  using decimal_Cons[of "nat i"] not_digits
  by (auto simp: Itoa_def)

lemma strip_description_no_tab: "tab \<notin> set s \<Longrightarrow> strip_description s = s"
  by (auto simp: strip_description_takeWhile)

lemma parse_directive_Itoa:
  assumes "0 < intSize" and "int_range intSize i"
  shows "parse_directive intSize (Itoa i) = Inr i"
    and "parse_directive intSize ('':'' @ Itoa i) = Inr i"
proof -
  show "parse_directive intSize (Itoa i) = Inr i"
    using Atoi_Itoa[OF assms] Itoa_no_colon[of i]
    by (simp add: parse_directive_def strip_description_no_tab Itoa_no_tab TrimPrefix_def)
  have "tab \<notin> set ('':'' @ Itoa i)"
    using Itoa_no_tab[of i] by (simp add: tab_def)
  then have "strip_description ('':'' @ Itoa i) = '':'' @ Itoa i"
    by (rule strip_description_no_tab)
  then show "parse_directive intSize ('':'' @ Itoa i) = Inr i"
    using Atoi_Itoa[OF assms]
    by (simp add: parse_directive_def TrimPrefix_def)
qed


lemma ScanLines_tokens_line:
  "newline \<notin> set x \<Longrightarrow>
   ScanLines_tokens cur (x @ newline # rest) = (cur @ x) # ScanLines_tokens [] rest"
  by (induction x arbitrary: cur) auto

lemma ScanLines_tokens_last:
  "newline \<notin> set x \<Longrightarrow>
   ScanLines_tokens cur x = (if cur @ x = [] then [] else [cur @ x])"
  by (induction x arbitrary: cur) auto

theorem completion_proxy_witness:
  "ValidArgsFunction 64
     (kubectl_prints (''pods'' @ [tab] @ ''all pods'' @ [newline] @ ''nodes'' @ [newline]
                      @ '':4'' @ [newline]))
     [''get''] [] = (Some [''pods'', ''nodes''], 4)
   \<and> ValidArgsFunction 64 (kubectl_prints []) [''get''] [] = (None, ShellCompDirectiveError)
   \<and> ValidArgsFunction 64 (kubectl_prints (''pods'' @ [newline])) [''get''] [] =
       (None, ShellCompDirectiveError)
   \<and> ValidArgsFunction 64 (\<lambda>a. (Some ''unknown command'', [])) [''get''] [] =
       (None, ShellCompDirectiveError)"
  using completion_proxy [of 64 "kubectl_prints (''pods'' @ [tab] @ ''all pods'' @ [newline]
      @ ''nodes'' @ [newline] @ '':4'' @ [newline])" "[''get'']" "[]"]
    completion_proxy [of 64 "kubectl_prints []" "[''get'']" "[]"]
    completion_proxy [of 64 "kubectl_prints (''pods'' @ [newline])" "[''get'']" "[]"]
    completion_proxy [of 64 "\<lambda>a. (Some ''unknown command'', [])" "[''get'']" "[]"]
  by (simp add: kubectl_prints_def line_too_long_def output_lines_def parse_directive_def
      strip_description_takeWhile dropCR_def MaxScanTokenSize_def newline_def tab_def
      carriage_return_def TrimPrefix_def Atoi_def ParseInt_def ParseUint_def is_digit_def
      digit_val_def)


lemma long_line_facts:
  "length long_line = MaxScanTokenSize" "newline \<notin> set long_line"
  by (simp_all add: long_line_def newline_def)

lemma long_output_tokens: "ScanLines_tokens [] long_output = [long_line, '':4'']"
  using ScanLines_tokens_line[of long_line "[]" "'':4'' @ [newline]"] long_line_facts(2)
  by (simp add: long_output_def newline_def)

text \<open>
  C4 as stated leaves out the scanner's error: on \<open>long_output\<close> the command succeeds,
  the output has two lines and the last one is the directive 4, and still the function
  returns the error directive.
\<close>

theorem completion_proxy_counterexample:
  "fst (kubectl_prints long_output (ShellCompRequestCmd # [''get''] @ [[]])) = None
   \<and> output_lines long_output = [long_line, '':4'']
   \<and> parse_directive 64 (last (output_lines long_output)) = Inr 4
   \<and> ValidArgsFunction 64 (kubectl_prints long_output) [''get''] []
       = (None, ShellCompDirectiveError)"
proof -
  have d: "dropCR long_line = long_line"
    by (simp add: dropCR_def long_line_def MaxScanTokenSize_def carriage_return_def)
  have lines: "output_lines long_output = [long_line, '':4'']"
    by (simp add: output_lines_def long_output_tokens d) (simp add: dropCR_def carriage_return_def)
  have p: "parse_directive 64 '':4'' = Inr 4"
    by (simp add: parse_directive_def strip_description_takeWhile tab_def TrimPrefix_def
        Atoi_def ParseInt_def ParseUint_def is_digit_def digit_val_def)
  have long: "line_too_long long_output"
    by (simp add: line_too_long_def long_output_tokens long_line_facts)
  have "ValidArgsFunction 64 (kubectl_prints long_output) [''get''] []
       = (None, ShellCompDirectiveError)"
    by (rule ValidArgsFunction_too_long) (simp add: kubectl_prints_def long)
  then show ?thesis
    by (simp add: lines p kubectl_prints_def)
qed

text \<open>
  C9, as amended. When the embedded command succeeds and its output is a single line of
  fewer than 65536 bytes, a trailing carriage return counted, and the line, carriage
  return dropped, stands for a directive, the function returns an empty list of
  candidates and that directive as it is. The directive returned is the error directive
  exactly when the line itself stands for the error directive; the function adds no error
  of its own.
\<close>

theorem directive_only_response:
  assumes "Execute (ShellCompRequestCmd # args @ [toComplete]) = (None, out)"
    and "ScanLines_tokens [] out = [raw]"
    and "length raw < MaxScanTokenSize"
    and "parse_directive intSize (dropCR raw) = Inr directive"
  shows "ValidArgsFunction intSize Execute args toComplete = (Some [], directive)
     \<and> (snd (ValidArgsFunction intSize Execute args toComplete) = ShellCompDirectiveError
          \<longleftrightarrow> directive = ShellCompDirectiveError)"
proof -
  have short: "\<not> line_too_long out"
    using assms(2,3) by (simp add: line_too_long_def)
  have lines: "output_lines out = [dropCR raw]"
    using assms(2) by (simp add: output_lines_def)
  have "ValidArgsFunction intSize Execute args toComplete = (Some [], directive)"
    using assms(1,4) short lines
      ValidArgsFunction_scanned[of Execute args toComplete out intSize]
    by simp
  then show ?thesis by simp
qed

theorem directive_only_response_witness:
  "ValidArgsFunction 64 (kubectl_prints ('':4'' @ [newline])) [''get''] [] = (Some [], 4)
   \<and> snd (ValidArgsFunction 64 (kubectl_prints ('':4'' @ [newline])) [''get''] [])
       \<noteq> ShellCompDirectiveError"
  using directive_only_response [of "kubectl_prints ('':4'' @ [newline])" "[''get'']" "[]"
      "'':4'' @ [newline]" "'':4''" 64 4]
  by (simp add: kubectl_prints_def parse_directive_def
      strip_description_takeWhile dropCR_def MaxScanTokenSize_def newline_def tab_def
      carriage_return_def TrimPrefix_def Atoi_def ParseInt_def ParseUint_def is_digit_def
      digit_val_def ShellCompDirectiveError_def)

lemma ParseUint_loop_zeros:
  "ParseUint_loop m 0 (replicate k (CHR ''0'') @ s) = ParseUint_loop m 0 s"
  by (induction k) (simp_all add: is_digit_def digit_val_def)

lemma padded_directive_facts:
  "length padded_directive = MaxScanTokenSize"
  "newline \<notin> set padded_directive"
  "tab \<notin> set padded_directive"
  "padded_directive = CHR ''0'' # replicate (MaxScanTokenSize - 2) (CHR ''0'') @ ''4''"
  "last padded_directive = CHR ''4''"
  by (simp_all add: padded_directive_def newline_def tab_def MaxScanTokenSize_def
      replicate_Suc[symmetric] del: replicate_Suc replicate.simps)


lemma padded_output_tokens: "ScanLines_tokens [] padded_output = [padded_directive]"
  using ScanLines_tokens_line[of padded_directive "[]" "[]"] padded_directive_facts(2)
  by (simp add: padded_output_def)

lemma Atoi_padded_directive: "Atoi 64 padded_directive = Inr 4"
proof -
  have u: "ParseUint 64 padded_directive = Inr 4"
    by (simp add: ParseUint_def padded_directive_def ParseUint_loop_zeros is_digit_def
        digit_val_def)
  obtain cs where c: "padded_directive = CHR ''0'' # cs"
    using padded_directive_facts(4) by blast
  show ?thesis
    using u by (simp add: Atoi_def ParseInt_def c)
qed

lemma error_directive_output_run:
  "output_lines error_directive_output = ['':1'']"
  "parse_directive 64 '':1'' = Inr 1"
  "ValidArgsFunction 64 (kubectl_prints error_directive_output) [''get''] [] = (Some [], 1)"
proof -
  show lines: "output_lines error_directive_output = ['':1'']"
    by (simp add: error_directive_output_def output_lines_def newline_def dropCR_def
        carriage_return_def)
  show p: "parse_directive 64 '':1'' = Inr 1"
    by (simp add: parse_directive_def strip_description_takeWhile tab_def TrimPrefix_def
        Atoi_def ParseInt_def ParseUint_def is_digit_def digit_val_def)
  have short: "\<not> line_too_long error_directive_output"
    by (simp add: error_directive_output_def line_too_long_def newline_def MaxScanTokenSize_def)
  have ex: "kubectl_prints error_directive_output ([ShellCompRequestCmd] @ ([''get''] @ [[]])) =
      (None, error_directive_output)"
    by (simp add: kubectl_prints_def)
  show "ValidArgsFunction 64 (kubectl_prints error_directive_output) [''get''] [] = (Some [], 1)"
    using ValidArgsFunction_scanned[of "kubectl_prints error_directive_output" "[''get'']" "[]"
        error_directive_output 64, OF ex short]
    by (simp add: lines p)
qed

lemma empty_output_run:
  "ValidArgsFunction 64 (kubectl_prints []) [''get''] [] = (None, ShellCompDirectiveError)"
  by (simp add: ValidArgsFunction_def kubectl_prints_def)

text \<open>
  C9 as stated fails in two ways. A single line that is too long for the scanner:
  \<open>padded_output\<close> is one line, \<open>Atoi\<close> reads it as 4, and the function returns no
  candidates and the error directive. A single line that stands for the error directive:
  on \<open>error_directive_output\<close> the function returns the directive of the line, which is
  the error directive, the one it also returns on an empty output.
\<close>

theorem directive_only_response_counterexample:
  "fst (kubectl_prints padded_output (ShellCompRequestCmd # [''get''] @ [[]])) = None
   \<and> output_lines padded_output = [padded_directive]
   \<and> parse_directive 64 padded_directive = Inr 4
   \<and> ValidArgsFunction 64 (kubectl_prints padded_output) [''get''] []
       = (None, ShellCompDirectiveError)
   \<and> fst (kubectl_prints error_directive_output (ShellCompRequestCmd # [''get''] @ [[]])) = None
   \<and> output_lines error_directive_output = ['':1'']
   \<and> parse_directive 64 '':1'' = Inr 1
   \<and> snd (ValidArgsFunction 64 (kubectl_prints error_directive_output) [''get''] [])
       = ShellCompDirectiveError
   \<and> snd (ValidArgsFunction 64 (kubectl_prints []) [''get''] []) = ShellCompDirectiveError"
proof -
  have d: "dropCR padded_directive = padded_directive"
    using padded_directive_facts(5) by (simp add: dropCR_def carriage_return_def)
  have lines: "output_lines padded_output = [padded_directive]"
    by (simp add: output_lines_def padded_output_tokens d)
  obtain cs where c: "padded_directive = CHR ''0'' # cs"
    using padded_directive_facts(4) by blast
  have t: "TrimPrefix padded_directive '':'' = padded_directive"
    by (simp add: TrimPrefix_def c)
  have p: "parse_directive 64 padded_directive = Inr 4"
    by (simp add: parse_directive_def strip_description_no_tab padded_directive_facts(3) t
        Atoi_padded_directive)
  have long: "line_too_long padded_output"
    by (simp add: line_too_long_def padded_output_tokens padded_directive_facts(1))
  have "ValidArgsFunction 64 (kubectl_prints padded_output) [''get''] []
       = (None, ShellCompDirectiveError)"
    by (rule ValidArgsFunction_too_long) (simp add: kubectl_prints_def long)
  moreover have "fst (kubectl_prints padded_output (ShellCompRequestCmd # [''get''] @ [[]])) = None"
    "fst (kubectl_prints error_directive_output (ShellCompRequestCmd # [''get''] @ [[]])) = None"
    by (simp_all add: kubectl_prints_def)
  moreover have "snd (ValidArgsFunction 64 (kubectl_prints error_directive_output) [''get''] [])
       = ShellCompDirectiveError"
    by (simp add: error_directive_output_run(3) ShellCompDirectiveError_def)
  moreover have "snd (ValidArgsFunction 64 (kubectl_prints []) [''get''] []) = ShellCompDirectiveError"
    by (simp add: empty_output_run)
  ultimately show ?thesis
    using lines p error_directive_output_run(1,2) by blast
qed

text \<open>
  C10, as amended. For every integer \<open>n\<close> that is a value of \<open>int\<close>, the lines \<open>:n\<close>
  and \<open>n\<close> both stand for the directive \<open>n\<close>; when one of them is the last line of
  the output of a successful command whose lines the scanner can read, the function
  returns \<open>n\<close> as the directive.
\<close>

theorem directive_colon_optional:
  assumes "0 < intSize" and "int_range intSize n"
  shows "parse_directive intSize ('':'' @ Itoa n) = Inr n
     \<and> parse_directive intSize (Itoa n) = Inr n
     \<and> (Execute (ShellCompRequestCmd # args @ [toComplete]) = (None, out)
          \<and> \<not> line_too_long out \<and> output_lines out \<noteq> []
          \<and> (last (output_lines out) = '':'' @ Itoa n \<or> last (output_lines out) = Itoa n)
        \<longrightarrow> ValidArgsFunction intSize Execute args toComplete =
              (Some (map strip_description (butlast (output_lines out))), n))"
  using parse_directive_Itoa[OF assms]
    ValidArgsFunction_scanned[of Execute args toComplete out intSize]
  by auto

lemma Itoa_examples:
  "Itoa 4 = ''4''" "Itoa (- 12) = ''-12''"
  "Itoa 9223372036854775808 = ''9223372036854775808''"
  by (simp_all add: Itoa_def decimal.simps digit_char_def)

text \<open>
  C10 as stated fails for an integer that is not a value of \<open>int\<close>: 2 ^ 63 is read
  with a range error, with or without the colon.
\<close>

theorem directive_colon_optional_counterexample:
  "\<not> int_range 64 9223372036854775808
   \<and> Itoa 9223372036854775808 = ''9223372036854775808''
   \<and> parse_directive 64 '':9223372036854775808'' = Inl ErrRange
   \<and> parse_directive 64 ''9223372036854775808'' = Inl ErrRange
   \<and> output_lines overflow_output = ['':9223372036854775808'']
   \<and> ValidArgsFunction 64 (kubectl_prints overflow_output) [''get''] []
       = (None, ShellCompDirectiveError)"
proof -
  have r: "\<not> int_range 64 9223372036854775808"
    by (simp add: int_range_def)
  have p1: "parse_directive 64 '':9223372036854775808'' = Inl ErrRange"
    by (simp add: parse_directive_def strip_description_takeWhile tab_def TrimPrefix_def
        Atoi_def ParseInt_def ParseUint_def is_digit_def digit_val_def)
  have p2: "parse_directive 64 ''9223372036854775808'' = Inl ErrRange"
    by (simp add: parse_directive_def strip_description_takeWhile tab_def TrimPrefix_def
        Atoi_def ParseInt_def ParseUint_def is_digit_def digit_val_def)
  have lines: "output_lines overflow_output = ['':9223372036854775808'']"
    by (simp add: overflow_output_def output_lines_def newline_def dropCR_def
        carriage_return_def)
  have short: "\<not> line_too_long overflow_output"
    by (simp add: overflow_output_def line_too_long_def newline_def MaxScanTokenSize_def)
  have ex: "kubectl_prints overflow_output ([ShellCompRequestCmd] @ ([''get''] @ [[]])) =
      (None, overflow_output)"
    by (simp add: kubectl_prints_def)
  have "ValidArgsFunction 64 (kubectl_prints overflow_output) [''get''] []
       = (None, ShellCompDirectiveError)"
    using ValidArgsFunction_scanned[of "kubectl_prints overflow_output" "[''get'']" "[]"
        overflow_output 64, OF ex short]
    by (simp add: lines p1)
  then show ?thesis
    using r p1 p2 lines Itoa_examples(3) by simp
qed


theorem directive_colon_optional_witness:
  "parse_directive 64 '':4'' = Inr 4 \<and> parse_directive 64 ''4'' = Inr 4
   \<and> parse_directive 32 '':-12'' = Inr (- 12) \<and> parse_directive 32 ''-12'' = Inr (- 12)
   \<and> ValidArgsFunction 64 (kubectl_prints (''pods'' @ [newline] @ ''4'' @ [newline])) [''get''] []
       = (Some [''pods''], 4)"
  using directive_colon_optional [of 64 4 "kubectl_prints (''pods'' @ [newline] @ ''4'' @ [newline])"
      "[''get'']" "[]" "''pods'' @ [newline] @ ''4'' @ [newline]"]
    directive_colon_optional [of 32 "- 12" "kubectl_prints []" "[]" "[]" "[]"]
  by (simp add: Itoa_examples int_range_def kubectl_prints_def line_too_long_def
      output_lines_def dropCR_def MaxScanTokenSize_def newline_def carriage_return_def
      strip_description_takeWhile tab_def)

end
